theory Spec2Isabelle
  imports Complex_Main "HOL-Library.Word" "HOL-Library.AList" "HOL-Library.Sublist"
begin

unbundle bit_operations_syntax

section \<open>MAC canonicalisation (package router)\<close>

text \<open>
  Go strings are byte sequences and \<open>mac[i]\<close> is a byte, so a string is a
  \<^typ>\<open>char list\<close> (one \<^typ>\<open>char\<close> per byte). The byte arithmetic
  \<open>c - 'A' + 'a'\<close> is done on the byte's number; \<^const>\<open>char_of\<close> reduces
  modulo 256 as \<open>uint8\<close> does.
\<close>

definition is_separator :: "char \<Rightarrow> bool" where
  "is_separator c \<longleftrightarrow> c = CHR '':'' \<or> c = CHR ''-'' \<or> c = CHR ''.'' \<or> c = CHR '' ''"

definition is_upper :: "char \<Rightarrow> bool" where
  "is_upper c \<longleftrightarrow> (of_char c :: nat) \<ge> of_char CHR ''A'' \<and> (of_char c :: nat) \<le> of_char CHR ''Z''"

definition to_lower :: "char \<Rightarrow> char" where
  "to_lower c = (if is_upper c
     then char_of ((of_char c :: nat) - of_char CHR ''A'' + of_char CHR ''a'')
     else c)"

text \<open>
  The loop \<open>for i := 0; i < len(mac); i++\<close> of \<open>normalizeMAC\<close>, on the bytes not
  yet visited, with the buffer \<open>b\<close> it appends to.
\<close>

fun normalizeMAC_loop :: "string \<Rightarrow> string \<Rightarrow> string" where
  "normalizeMAC_loop [] b = b"
| "normalizeMAC_loop (c # mac) b =
     (if is_separator c then normalizeMAC_loop mac b
      else normalizeMAC_loop mac (b @ [to_lower c]))"

definition normalizeMAC :: "string \<Rightarrow> string" where
  "normalizeMAC mac = normalizeMAC_loop mac []"

definition MatchMAC :: "string \<Rightarrow> string \<Rightarrow> bool" where
  "MatchMAC a b \<longleftrightarrow> normalizeMAC a = normalizeMAC b"

section \<open>Errors and data of package router\<close>

text \<open>
  A Go \<open>error\<close> value: \<open>errors.New(s)\<close> and \<open>fmt.Errorf\<close> without \<open>%w\<close> give
  \<open>Err\<close> with the formatted text, \<open>fmt.Errorf("prefix%w", err)\<close> gives \<open>Wrap\<close>
  around \<open>err\<close>. \<open>error_text\<close> is the method \<open>Error()\<close>. A \<open>nil\<close> error is
  \<open>None\<close> of type \<open>error option\<close>.
\<close>

datatype error = Err string | Wrap string error

fun error_text :: "error \<Rightarrow> string" where
  "error_text (Err s) = s"
| "error_text (Wrap p e) = p @ error_text e"

record Device =
  MAC :: string
  IP :: string
  Hostname :: string
  Active :: bool

record HomeStationClient =
  baseURL :: string
  user :: string
  pass :: string

record saltResp =
  salt_Error :: string
  Salt :: string
  SaltWebUI :: string

text \<open>The anonymous element struct of \<open>hostTblResp.Data.HostTbl\<close>, and the envelope.\<close>

record hostEntry =
  Physaddress :: string
  Ipaddress :: string
  host_Hostname :: string
  host_Active :: string

record hostTblData =
  HostTbl :: "hostEntry list"

record hostTblResp =
  host_Error :: string
  host_Message :: string
  host_Data :: hostTblData
  host_Token :: string

text \<open>
  What \<open>encoding/json\<close> stores in a value of type \<open>any\<close>: \<open>nil\<close>, \<open>bool\<close>,
  \<open>float64\<close> (a JSON number; every such value is a rational), \<open>string\<close>, \<open>[]any\<close>
  and \<open>map[string]any\<close>. The type assertion \<open>v.(string)\<close> succeeds on \<open>JString\<close> only.
\<close>

datatype jany =
  JNil | JBool bool | JFloat64 rat | JString string | JSlice "jany list"
  | JMap "(string \<times> jany) list"

text \<open>
  The comma-ok type assertion \<open>s, ok := jr[key].(string)\<close>: indexing a map at an absent
  key gives \<open>nil\<close>, and the assertion then gives the empty string and \<open>false\<close>.
\<close>

definition assert_string :: "jany option \<Rightarrow> string \<times> bool" where
  "assert_string v = (case v of Some (JString s) \<Rightarrow> (s, True) | _ \<Rightarrow> ([], False))"

section \<open>HTTP requests, the trace, and the libraries the client calls\<close>

text \<open>
  \<open>url.Values\<close> and \<open>http.Header\<close> are both \<open>map[string][]string\<close>; \<open>Set\<close>
  replaces the values of a key by the single value given.
\<close>

type_synonym Values = "(string \<times> string list) list"

definition Values_Set :: "Values \<Rightarrow> string \<Rightarrow> string \<Rightarrow> Values" where
  "Values_Set v key x = AList.update key [x] v"

text \<open>
  A request as \<open>doPostForm\<close> and \<open>doGet\<close> build it. The body of a POST is kept as the
  form that \<open>form.Encode()\<close> serialises; a GET has no body.
\<close>

record request =
  Method :: string
  URL :: string
  Header :: Values
  Body :: "Values option"

text \<open>
  The trace of what a client did: every request handed to \<open>doGet\<close> or \<open>doPostForm\<close>
  (an attempted request, whatever its outcome), and every call of the credential
  hasher \<open>pbkdf2Hex\<close> with its two arguments.
\<close>

datatype event = Request request | Pbkdf2Hex string string

fun requests :: "event list \<Rightarrow> request list" where
  "requests [] = []"
| "requests (Request r # es) = r # requests es"
| "requests (Pbkdf2Hex p s # es) = requests es"

datatype hash = SHA256

text \<open>
  The code outside the repository that the client calls, as parameters:
  \<^item> \<open>http_Do\<close>: \<open>http.NewRequest\<close> followed by \<open>h.client.Do(req)\<close> and
    \<open>io.ReadAll(resp.Body)\<close>: an error (of \<open>NewRequest\<close> or of \<open>Do\<close>; both make
    \<open>doGet\<close> and \<open>doPostForm\<close> return \<open>nil, nil, err\<close>) or the bytes of the body.
    The answer may depend on every request attempted before (the router's session state and
    the client's cookie jar);
  \<^item> \<open>json.Unmarshal\<close> at the three target types the client uses: an error, or the
    decoded value. A field absent from the JSON keeps Go's zero value (the empty string,
    the empty list), and a key absent from a \<open>map[string]any\<close> is absent from the map;
  \<^item> \<open>pbkdf2.Key(password, salt, iter, keyLen, h)\<close> of \<open>golang.org/x/crypto/pbkdf2\<close>.
\<close>

record world =
  http_Do :: "request list \<Rightarrow> request \<Rightarrow> error + string"
  json_Unmarshal_saltResp :: "string \<Rightarrow> error + saltResp"
  json_Unmarshal_map :: "string \<Rightarrow> error + (string \<rightharpoonup> jany)"
  json_Unmarshal_hostTblResp :: "string \<Rightarrow> error + hostTblResp"
  pbkdf2_Key :: "string \<Rightarrow> string \<Rightarrow> nat \<Rightarrow> nat \<Rightarrow> hash \<Rightarrow> 8 word list"

text \<open>\<open>strings.Contains(s, substr)\<close>: \<open>substr\<close> occurs within \<open>s\<close>.\<close>

definition Contains :: "string \<Rightarrow> string \<Rightarrow> bool" where
  "Contains s substr \<longleftrightarrow> sublist substr s"

text \<open>
  \<open>hex.EncodeToString\<close>: for each byte \<open>v\<close> the two characters \<open>hextable[v>>4]\<close>
  and \<open>hextable[v&0x0f]\<close>.
\<close>

definition hextable :: string where
  "hextable = ''0123456789abcdef''"

fun hex_EncodeToString :: "8 word list \<Rightarrow> string" where
  "hex_EncodeToString [] = []"
| "hex_EncodeToString (v # src) =
     hextable ! unat (drop_bit 4 v) # hextable ! unat (v AND 0x0f) # hex_EncodeToString src"

section \<open>The HomeStation client (internal/router/homestation.go)\<close>

definition pbkdf2Hex :: "world \<Rightarrow> string \<Rightarrow> string \<Rightarrow> string" where
  "pbkdf2Hex w password salt =
     (let key = pbkdf2_Key w password salt 1000 16 SHA256
      in hex_EncodeToString key)"

definition setCommonHeaders :: "HomeStationClient \<Rightarrow> request \<Rightarrow> request" where
  "setCommonHeaders h req =
     (let req = req\<lparr>Header := Values_Set (Header req) ''Accept'' ''*/*''\<rparr>;
          req = req\<lparr>Header := Values_Set (Header req) ''User-Agent''
            ''Mozilla/5.0 (X11; Linux x86_64) AppleWebKit/537.36 (KHTML, like Gecko) Chrome/120.0.0.0 Safari/537.36''\<rparr>;
          req = req\<lparr>Header := Values_Set (Header req) ''Referer'' (baseURL h @ ''/'')\<rparr>;
          req = req\<lparr>Header := Values_Set (Header req) ''X-Requested-With'' ''XMLHttpRequest''\<rparr>
      in req)"

text \<open>The request \<open>doPostForm\<close> builds for a URL and a form, and the one \<open>doGet\<close> builds.\<close>

definition postFormRequest :: "HomeStationClient \<Rightarrow> string \<Rightarrow> Values \<Rightarrow> request" where
  "postFormRequest h u form =
     (let req = \<lparr>Method = ''POST'', URL = u, Header = [], Body = Some form\<rparr>;
          req = setCommonHeaders h req;
          req = req\<lparr>Header := Values_Set (Header req) ''Content-Type''
            ''application/x-www-form-urlencoded; charset=UTF-8''\<rparr>
      in req)"

definition getRequest :: "HomeStationClient \<Rightarrow> string \<Rightarrow> request" where
  "getRequest h u =
     (let req = \<lparr>Method = ''GET'', URL = u, Header = [], Body = None\<rparr>;
          req = setCommonHeaders h req
      in req)"

text \<open>
  \<open>doPostForm\<close> and \<open>doGet\<close> return \<open>(resp, body, err)\<close>; no caller looks at \<open>resp\<close>,
  so the result is the error or the body. Both take the trace and return it extended.
\<close>

definition doPostForm ::
  "world \<Rightarrow> HomeStationClient \<Rightarrow> string \<Rightarrow> Values \<Rightarrow> event list \<Rightarrow> (error + string) \<times> event list" where
  "doPostForm w h u form t =
     (let req = postFormRequest h u form
      in (http_Do w (requests t) req, t @ [Request req]))"

definition doGet ::
  "world \<Rightarrow> HomeStationClient \<Rightarrow> string \<Rightarrow> event list \<Rightarrow> (error + string) \<times> event list" where
  "doGet w h u t =
     (let req = getRequest h u
      in (http_Do w (requests t) req, t @ [Request req]))"

definition loginURL :: "HomeStationClient \<Rightarrow> string" where
  "loginURL h = baseURL h @ ''/api/v1/session/login''"

definition menuURL :: "HomeStationClient \<Rightarrow> string" where
  "menuURL h = baseURL h @ ''/api/v1/session/menu''"

definition hostTblURL :: "HomeStationClient \<Rightarrow> string" where
  "hostTblURL h = baseURL h @ ''/api/v1/host/hostTbl''"

definition logoutURL :: "HomeStationClient \<Rightarrow> string" where
  "logoutURL h = baseURL h @ ''/api/v1/session/logout''"

definition activateSession :: "world \<Rightarrow> HomeStationClient \<Rightarrow> event list \<Rightarrow> event list" where
  "activateSession w h t = snd (doGet w h (menuURL h) t)"

text \<open>The two forms \<open>tryLogin\<close> posts: \<open>form\<close> (the salt request) and \<open>form2\<close>.\<close>

definition saltForm :: "HomeStationClient \<Rightarrow> Values" where
  "saltForm h = Values_Set (Values_Set [] ''username'' (user h)) ''password'' ''seeksalthash''"

definition hashForm :: "HomeStationClient \<Rightarrow> string \<Rightarrow> Values" where
  "hashForm h finalHash = Values_Set (Values_Set [] ''username'' (user h)) ''password'' finalHash"

definition tryLogin :: "world \<Rightarrow> HomeStationClient \<Rightarrow> event list \<Rightarrow> error option \<times> event list" where
  "tryLogin w h t =
     (case doPostForm w h (loginURL h) (saltForm h) t of
        (Inl err, t) \<Rightarrow> (Some (Wrap ''failed requesting salt: '' err), t)
      | (Inr body, t) \<Rightarrow>
     (case json_Unmarshal_saltResp w body of
        Inl err \<Rightarrow> (Some (Wrap ''failed parsing salt response: '' err), t)
      | Inr saltResponse \<Rightarrow>
     (let salt = Salt saltResponse;
          saltWebUI = SaltWebUI saltResponse
      in if salt = [] then (Some (Err ''no salt returned from router''), t)
      else if saltWebUI = [] then (Some (Err ''no saltwebui returned from router''), t)
      else
     (let hash1 = pbkdf2Hex w (pass h) salt;
          t = t @ [Pbkdf2Hex (pass h) salt];
          finalHash = pbkdf2Hex w hash1 saltWebUI;
          t = t @ [Pbkdf2Hex hash1 saltWebUI]
      in case doPostForm w h (loginURL h) (hashForm h finalHash) t of
        (Inl err, t) \<Rightarrow> (Some (Wrap ''failed posting hashed password: '' err), t)
      | (Inr resp2body, t) \<Rightarrow>
     (case json_Unmarshal_map w resp2body of
        Inl err \<Rightarrow> (Some (Err ''login failed with provided credentials''), t)
      | Inr jr \<Rightarrow>
          (let (e, ok) = assert_string (jr ''error'')
           in if ok \<and> e = ''ok'' then (None, activateSession w h t)
           else
          (let (msg, ok) = assert_string (jr ''message'')
           in if ok \<and> Contains msg ''MSG_LOGIN_150''
              then (Some (Err (''An active session exists. Logout first. '' @ msg)), t)
              else (Some (Err ''login failed with provided credentials''), t))))))))"

text \<open>The loop \<open>for _, e := range r.Data.HostTbl\<close> of \<open>fetchHostTbl\<close>, appending to \<open>out\<close>.\<close>

fun fetchHostTbl_loop :: "hostEntry list \<Rightarrow> Device list \<Rightarrow> Device list" where
  "fetchHostTbl_loop [] out = out"
| "fetchHostTbl_loop (e # es) out =
     (let active = False;
          active = (if host_Active e = ''true'' then True else active)
      in fetchHostTbl_loop es
           (out @ [\<lparr>MAC = Physaddress e, IP = Ipaddress e, Hostname = host_Hostname e,
                    Active = active\<rparr>]))"

text \<open>
  \<open>fetchHostTbl\<close> and \<open>ListConnected\<close> return \<open>([]Device, error)\<close>: a pair of the slice
  (\<open>nil\<close> is the empty list) and the error.
\<close>

definition fetchHostTbl ::
  "world \<Rightarrow> HomeStationClient \<Rightarrow> event list \<Rightarrow> (Device list \<times> error option) \<times> event list" where
  "fetchHostTbl w h t =
     (case doGet w h (hostTblURL h) t of
        (Inl err, t) \<Rightarrow> (([], Some (Wrap ''failed fetching host table: '' err)), t)
      | (Inr body, t) \<Rightarrow>
     (case json_Unmarshal_hostTblResp w body of
        Inl err \<Rightarrow> (([], Some (Wrap ''failed parsing host table JSON: '' err)), t)
      | Inr r \<Rightarrow>
          if host_Error r \<noteq> ''ok''
          then (([], Some (Err (''host table returned error: '' @ host_Error r))), t)
          else ((fetchHostTbl_loop (HostTbl (host_Data r)) [], None), t)))"

definition logout :: "world \<Rightarrow> HomeStationClient \<Rightarrow> event list \<Rightarrow> event list" where
  "logout w h t = snd (doPostForm w h (logoutURL h) [] t)"

definition ListConnected ::
  "world \<Rightarrow> HomeStationClient \<Rightarrow> event list \<Rightarrow> (Device list \<times> error option) \<times> event list" where
  "ListConnected w h t =
     (case tryLogin w h t of
        (Some err, t) \<Rightarrow> (([], Some err), t)
      | (None, t) \<Rightarrow>
          (case fetchHostTbl w h t of
             (devices_err, t) \<Rightarrow> (devices_err, logout w h t)))"

section \<open>The requests of one run, and observations on traces\<close>

text \<open>
  The five requests \<open>ListConnected\<close> can make, as the functions above build them: the
  salt request and the hashed-password request of \<open>tryLogin\<close>, the request of
  \<open>activateSession\<close>, of \<open>fetchHostTbl\<close> and of \<open>logout\<close>.
\<close>

definition saltRequest :: "HomeStationClient \<Rightarrow> request" where
  "saltRequest h = postFormRequest h (loginURL h) (saltForm h)"

definition hashRequest :: "HomeStationClient \<Rightarrow> string \<Rightarrow> request" where
  "hashRequest h finalHash = postFormRequest h (loginURL h) (hashForm h finalHash)"

definition menuRequest :: "HomeStationClient \<Rightarrow> request" where
  "menuRequest h = getRequest h (menuURL h)"

definition hostTblRequest :: "HomeStationClient \<Rightarrow> request" where
  "hostTblRequest h = getRequest h (hostTblURL h)"

definition logoutRequest :: "HomeStationClient \<Rightarrow> request" where
  "logoutRequest h = postFormRequest h (logoutURL h) []"

text \<open>An event is a request to the given URL; an event is a call of the hasher.\<close>

fun is_request_to :: "string \<Rightarrow> event \<Rightarrow> bool" where
  "is_request_to u (Request r) \<longleftrightarrow> URL r = u"
| "is_request_to u (Pbkdf2Hex p s) \<longleftrightarrow> False"

fun is_hash_call :: "event \<Rightarrow> bool" where
  "is_hash_call (Pbkdf2Hex p s) \<longleftrightarrow> True"
| "is_hash_call (Request r) \<longleftrightarrow> False"

text \<open>The events a run added to the trace \<open>t\<close> it started from.\<close>

definition events_since :: "event list \<Rightarrow> event list \<Rightarrow> event list" where
  "events_since t t' = drop (length t) t'"

text \<open>The world \<open>w\<close>, except that the request \<open>r\<close> is always answered by \<open>a\<close>.\<close>

definition answering :: "world \<Rightarrow> request \<Rightarrow> error + string \<Rightarrow> world" where
  "answering w r a = w\<lparr>http_Do := \<lambda>hist req. if req = r then a else http_Do w hist req\<rparr>"

section \<open>A concrete router, for evaluating the client\<close>

text \<open>Response bodies: of the salt request, of the hashed-password request, of the host table.\<close>

definition salt_body :: string where
  \<open>salt_body = ''{"error":"ok","salt":"abc","saltwebui":"xyz"}''\<close>

definition salt_body_error_fail :: string where
  \<open>salt_body_error_fail = ''{"error":"fail","salt":"abc","saltwebui":"xyz"}''\<close>

definition salt_body_empty_salt :: string where
  \<open>salt_body_empty_salt = ''{"error":"ok","salt":"","saltwebui":"xyz"}''\<close>

definition salt_body_no_saltwebui :: string where
  \<open>salt_body_no_saltwebui = ''{"error":"ok","salt":"abc"}''\<close>

definition login_body_ok :: string where
  \<open>login_body_ok = ''{"error":"ok"}''\<close>

definition login_body_blocked :: string where
  \<open>login_body_blocked = ''{"error":"fail","message":"MSG_LOGIN_150 please logout"}''\<close>

definition login_body_rejected :: string where
  \<open>login_body_rejected = ''{"error":"fail","message":"bad credentials"}''\<close>

definition host_body_devices :: string where
  \<open>host_body_devices = ''{"error":"ok","data":{"hostTbl":[{"physaddress":"AA:BB:CC:DD:EE:FF","ipaddress":"192.168.0.5","hostname":"phone","active":"true"},{"physaddress":"11:22:33:44:55:66","ipaddress":"192.168.0.6","hostname":"tv","active":"maybe"}]}}''\<close>

definition host_body_empty :: string where
  \<open>host_body_empty = ''{"error":"ok","data":{"hostTbl":[]}}''\<close>

definition host_body_denied :: string where
  \<open>host_body_denied = ''{"error":"denied"}''\<close>

definition garbled_body :: string where
  "garbled_body = ''<html>''"

definition null_body :: string where
  "null_body = ''null''"

text \<open>
  What \<open>json.Unmarshal\<close> makes of these bodies at each target type; every other body is
  rejected. The body \<open>null\<close> decodes without error and leaves the map \<open>nil\<close>.
\<close>

definition demo_Unmarshal_saltResp :: "string \<Rightarrow> error + saltResp" where
  "demo_Unmarshal_saltResp b =
     (if b = salt_body
      then Inr \<lparr>salt_Error = ''ok'', Salt = ''abc'', SaltWebUI = ''xyz''\<rparr>
      else if b = salt_body_error_fail
      then Inr \<lparr>salt_Error = ''fail'', Salt = ''abc'', SaltWebUI = ''xyz''\<rparr>
      else if b = salt_body_empty_salt
      then Inr \<lparr>salt_Error = ''ok'', Salt = [], SaltWebUI = ''xyz''\<rparr>
      else if b = salt_body_no_saltwebui
      then Inr \<lparr>salt_Error = ''ok'', Salt = ''abc'', SaltWebUI = []\<rparr>
      else Inl (Err ''invalid character''))"

definition demo_Unmarshal_map :: "string \<Rightarrow> error + (string \<rightharpoonup> jany)" where
  "demo_Unmarshal_map b =
     (if b = login_body_ok
      then Inr [''error'' \<mapsto> JString ''ok'']
      else if b = login_body_blocked
      then Inr [''error'' \<mapsto> JString ''fail'',
                ''message'' \<mapsto> JString ''MSG_LOGIN_150 please logout'']
      else if b = login_body_rejected
      then Inr [''error'' \<mapsto> JString ''fail'', ''message'' \<mapsto> JString ''bad credentials'']
      else if b = null_body
      then Inr Map.empty
      else Inl (Err ''invalid character''))"

definition demo_Unmarshal_hostTblResp :: "string \<Rightarrow> error + hostTblResp" where
  "demo_Unmarshal_hostTblResp b =
     (if b = host_body_devices
      then Inr \<lparr>host_Error = ''ok'', host_Message = [],
        host_Data = \<lparr>HostTbl =
          [\<lparr>Physaddress = ''AA:BB:CC:DD:EE:FF'', Ipaddress = ''192.168.0.5'',
            host_Hostname = ''phone'', host_Active = ''true''\<rparr>,
           \<lparr>Physaddress = ''11:22:33:44:55:66'', Ipaddress = ''192.168.0.6'',
            host_Hostname = ''tv'', host_Active = ''maybe''\<rparr>]\<rparr>,
        host_Token = []\<rparr>
      else if b = host_body_empty
      then Inr \<lparr>host_Error = ''ok'', host_Message = [], host_Data = \<lparr>HostTbl = []\<rparr>,
        host_Token = []\<rparr>
      else if b = host_body_denied
      then Inr \<lparr>host_Error = ''denied'', host_Message = [], host_Data = \<lparr>HostTbl = []\<rparr>,
        host_Token = []\<rparr>
      else Inl (Err ''invalid character''))"

text \<open>A stand-in for the key derivation, of the length asked for.\<close>

definition demo_Key :: "string \<Rightarrow> string \<Rightarrow> nat \<Rightarrow> nat \<Rightarrow> hash \<Rightarrow> 8 word list" where
  "demo_Key password salt iter keyLen hsh =
     replicate keyLen (of_nat (length password + length salt))"

text \<open>
  A client and a family of worlds to run it in. The router answers the first request of
  a run to the login URL with \<open>saltAnswer\<close>, a later one with \<open>loginAnswer\<close>, a request
  to the host-table URL with \<open>hostAnswer\<close>, and refuses every other request: the
  session-menu request and the logout request fail.
\<close>

definition demo_client :: HomeStationClient where
  "demo_client = \<lparr>baseURL = ''http://192.168.0.1'', user = ''admin'', pass = ''secret''\<rparr>"

definition refused :: "error + string" where
  "refused = Inl (Err ''connection refused'')"

definition demo_world :: "error + string \<Rightarrow> error + string \<Rightarrow> error + string \<Rightarrow> world" where
  "demo_world saltAnswer loginAnswer hostAnswer =
     \<lparr>http_Do = (\<lambda>hist req.
        if URL req = ''http://192.168.0.1/api/v1/session/login'' then
          (if hist = [] then saltAnswer else loginAnswer)
        else if URL req = ''http://192.168.0.1/api/v1/host/hostTbl'' then hostAnswer
        else refused),
      json_Unmarshal_saltResp = demo_Unmarshal_saltResp,
      json_Unmarshal_map = demo_Unmarshal_map,
      json_Unmarshal_hostTblResp = demo_Unmarshal_hostTblResp,
      pbkdf2_Key = demo_Key\<rparr>"

definition world_devices :: world where
  "world_devices = demo_world (Inr salt_body) (Inr login_body_ok) (Inr host_body_devices)"

definition world_no_devices :: world where
  "world_no_devices = demo_world (Inr salt_body) (Inr login_body_ok) (Inr host_body_empty)"

definition world_fetch_denied :: world where
  "world_fetch_denied = demo_world (Inr salt_body) (Inr login_body_ok) (Inr host_body_denied)"

definition world_blocked :: world where
  "world_blocked = demo_world (Inr salt_body) (Inr login_body_blocked) refused"

definition world_rejected :: world where
  "world_rejected = demo_world (Inr salt_body) (Inr login_body_rejected) refused"

definition world_login_garbled :: world where
  "world_login_garbled = demo_world (Inr salt_body) (Inr garbled_body) refused"

definition world_login_null :: world where
  "world_login_null = demo_world (Inr salt_body) (Inr null_body) refused"

definition world_salt_garbled :: world where
  "world_salt_garbled = demo_world (Inr garbled_body) (Inr login_body_ok) refused"

definition world_empty_salt :: world where
  "world_empty_salt = demo_world (Inr salt_body_empty_salt) (Inr login_body_ok) refused"

definition world_no_saltwebui :: world where
  "world_no_saltwebui = demo_world (Inr salt_body_no_saltwebui) (Inr login_body_ok) refused"

definition world_salt_error_fail :: world where
  "world_salt_error_fail = demo_world (Inr salt_body_error_fail) (Inr login_body_ok) refused"

section \<open>Properties of the MAC canonicaliser\<close>

lemma normalizeMAC_loop_acc:
  "normalizeMAC_loop mac b = b @ map to_lower (filter (\<lambda>c. \<not> is_separator c) mac)"
  by (induction mac arbitrary: b) simp_all

lemma normalizeMAC_map_filter:
  "normalizeMAC mac = map to_lower (filter (\<lambda>c. \<not> is_separator c) mac)"
  by (simp add: normalizeMAC_def normalizeMAC_loop_acc)

lemma to_lower_not_upper: "\<not> is_upper (to_lower c)"
  by (auto simp: to_lower_def is_upper_def)

lemma to_lower_idem: "to_lower (to_lower c) = to_lower c"
  using to_lower_not_upper [of c] by (simp add: to_lower_def [of "to_lower c"])

lemma to_lower_separator: "is_separator (to_lower c) \<longleftrightarrow> is_separator c"
proof (cases "is_upper c")
  case False
  then show ?thesis by (simp add: to_lower_def)
next
  case True
  then have n: "65 \<le> (of_char c :: nat)" "(of_char c :: nat) \<le> 90"
    by (simp_all add: is_upper_def)
  have c: "c = char_of (of_char c :: nat)" by simp
  have "\<not> is_separator c"
  proof
    assume "is_separator c"
    then have "(of_char c :: nat) \<in> {58, 45, 46, 32}"
      by (auto simp: is_separator_def)
    with n show False by auto
  qed
  moreover have "\<not> is_separator (to_lower c)"
  proof
    assume "is_separator (to_lower c)"
    then have "(of_char (to_lower c) :: nat) \<in> {58, 45, 46, 32}"
      by (auto simp: is_separator_def)
    moreover have "(of_char (to_lower c) :: nat) = of_char c + 32"
      using True n by (simp add: to_lower_def)
    ultimately show False using n by auto
  qed
  ultimately show ?thesis by simp
qed

lemma normalizeMAC_idem: "normalizeMAC (normalizeMAC x) = normalizeMAC x"
  by (induction x) (simp_all add: normalizeMAC_map_filter to_lower_separator to_lower_idem)

lemma normalizeMAC_append: "normalizeMAC (xs @ ys) = normalizeMAC xs @ normalizeMAC ys"
  by (simp add: normalizeMAC_map_filter)

lemma normalizeMAC_separator: "is_separator c \<Longrightarrow> normalizeMAC (c # ys) = normalizeMAC ys"
  by (simp add: normalizeMAC_map_filter)

lemma normalizeMAC_to_lower: "normalizeMAC (to_lower c # ys) = normalizeMAC (c # ys)"
  by (simp add: normalizeMAC_map_filter to_lower_separator to_lower_idem)

text \<open>
  Claim C8. \<open>normalizeMAC\<close> is idempotent; \<open>MatchMAC a b\<close> is equality of the
  normal forms, hence reflexive and symmetric; a separator \<open>:\<close>, \<open>-\<close>, \<open>.\<close> or
  space inserted at any position of either argument, and the ASCII case of any
  byte, do not change the verdict. The two examples of the specification hold.
\<close>

theorem normalizeMAC_idempotent_MatchMAC_insensitive:
  "normalizeMAC (normalizeMAC x) = normalizeMAC x
   \<and> MatchMAC a b = (normalizeMAC a = normalizeMAC b)
   \<and> MatchMAC a a
   \<and> MatchMAC a b = MatchMAC b a
   \<and> MatchMAC (xs @ CHR '':'' # ys) b = MatchMAC (xs @ ys) b
   \<and> MatchMAC (xs @ CHR ''-'' # ys) b = MatchMAC (xs @ ys) b
   \<and> MatchMAC (xs @ CHR ''.'' # ys) b = MatchMAC (xs @ ys) b
   \<and> MatchMAC (xs @ CHR '' '' # ys) b = MatchMAC (xs @ ys) b
   \<and> MatchMAC (xs @ to_lower c # ys) b = MatchMAC (xs @ c # ys) b
   \<and> MatchMAC ''AA:BB:CC:DD:EE:FF'' ''aa-bb-cc-dd-ee-ff''
   \<and> MatchMAC ''AABBCCDDEEFF'' ''aabbccddeeff''"
proof -
  have sep: "normalizeMAC (xs @ s # ys) = normalizeMAC (xs @ ys)" if "is_separator s" for s
    using that by (simp add: normalizeMAC_append normalizeMAC_separator)
  have low: "normalizeMAC (xs @ to_lower c # ys) = normalizeMAC (xs @ c # ys)"
    by (simp add: normalizeMAC_append normalizeMAC_to_lower)
  have ex1: "MatchMAC ''AA:BB:CC:DD:EE:FF'' ''aa-bb-cc-dd-ee-ff''"
    by code_simp
  have ex2: "MatchMAC ''AABBCCDDEEFF'' ''aabbccddeeff''"
    by code_simp
  show ?thesis
    unfolding MatchMAC_def [of _ b] MatchMAC_def [of a a] MatchMAC_def [of b a]
    using ex1 ex2
    by (auto simp: normalizeMAC_idem low sep is_separator_def)
qed

section \<open>Requests and traces\<close>

lemma requests_append: "requests (t @ es) = requests t @ requests es"
  by (induction t rule: requests.induct) simp_all

lemma request_URLs:
  "URL (saltRequest h) = loginURL h"
  "URL (hashRequest h finalHash) = loginURL h"
  "URL (menuRequest h) = menuURL h"
  "URL (hostTblRequest h) = hostTblURL h"
  "URL (logoutRequest h) = logoutURL h"
  by (simp_all add: saltRequest_def hashRequest_def menuRequest_def hostTblRequest_def
      logoutRequest_def postFormRequest_def getRequest_def setCommonHeaders_def)

lemma request_Methods:
  "Method (saltRequest h) = ''POST''"
  "Method (hashRequest h finalHash) = ''POST''"
  "Method (menuRequest h) = ''GET''"
  "Method (hostTblRequest h) = ''GET''"
  "Method (logoutRequest h) = ''POST''"
  by (simp_all add: saltRequest_def hashRequest_def menuRequest_def hostTblRequest_def
      logoutRequest_def postFormRequest_def getRequest_def setCommonHeaders_def)

lemma URLs_distinct:
  "loginURL h \<noteq> menuURL h" "loginURL h \<noteq> hostTblURL h" "loginURL h \<noteq> logoutURL h"
  "menuURL h \<noteq> hostTblURL h" "menuURL h \<noteq> logoutURL h" "hostTblURL h \<noteq> logoutURL h"
  by (simp_all add: loginURL_def menuURL_def hostTblURL_def logoutURL_def)

lemma hashRequest_password:
  "Body (hashRequest h finalHash) = Some [(''username'', [user h]), (''password'', [finalHash])]"
  by (simp add: hashRequest_def postFormRequest_def setCommonHeaders_def hashForm_def
      Values_Set_def)

lemma saltRequest_password:
  "Body (saltRequest h) = Some [(''username'', [user h]), (''password'', [''seeksalthash''])]"
  by (simp add: saltRequest_def postFormRequest_def setCommonHeaders_def saltForm_def
      Values_Set_def)

section \<open>The steps of tryLogin\<close>

lemma tryLogin_salt_request_failed:
  assumes "http_Do w (requests t) (saltRequest h) = Inl err"
  shows "tryLogin w h t =
    (Some (Wrap ''failed requesting salt: '' err), t @ [Request (saltRequest h)])"
  using assms by (simp add: tryLogin_def doPostForm_def saltRequest_def)

lemma tryLogin_salt_parse_failed:
  assumes "http_Do w (requests t) (saltRequest h) = Inr body"
    and "json_Unmarshal_saltResp w body = Inl err"
  shows "tryLogin w h t =
    (Some (Wrap ''failed parsing salt response: '' err), t @ [Request (saltRequest h)])"
  using assms by (simp add: tryLogin_def doPostForm_def saltRequest_def)

lemma tryLogin_no_salt:
  assumes "http_Do w (requests t) (saltRequest h) = Inr body"
    and "json_Unmarshal_saltResp w body = Inr sr"
    and "Salt sr = []"
  shows "tryLogin w h t =
    (Some (Err ''no salt returned from router''), t @ [Request (saltRequest h)])"
  using assms by (simp add: tryLogin_def doPostForm_def saltRequest_def)

lemma tryLogin_no_saltwebui:
  assumes "http_Do w (requests t) (saltRequest h) = Inr body"
    and "json_Unmarshal_saltResp w body = Inr sr"
    and "Salt sr \<noteq> []" and "SaltWebUI sr = []"
  shows "tryLogin w h t =
    (Some (Err ''no saltwebui returned from router''), t @ [Request (saltRequest h)])"
  using assms by (simp add: tryLogin_def doPostForm_def saltRequest_def)

lemma tryLogin_hashed:
  assumes "http_Do w (requests t) (saltRequest h) = Inr body"
    and "json_Unmarshal_saltResp w body = Inr sr"
    and "Salt sr \<noteq> []" and "SaltWebUI sr \<noteq> []"
  shows "tryLogin w h t =
    (let hash1 = pbkdf2Hex w (pass h) (Salt sr);
         finalHash = pbkdf2Hex w hash1 (SaltWebUI sr);
         t2 = t @ [Request (saltRequest h), Pbkdf2Hex (pass h) (Salt sr),
                   Pbkdf2Hex hash1 (SaltWebUI sr), Request (hashRequest h finalHash)]
     in case http_Do w (requests t @ [saltRequest h]) (hashRequest h finalHash) of
          Inl err \<Rightarrow> (Some (Wrap ''failed posting hashed password: '' err), t2)
        | Inr resp2body \<Rightarrow>
            (case json_Unmarshal_map w resp2body of
               Inl err \<Rightarrow> (Some (Err ''login failed with provided credentials''), t2)
             | Inr jr \<Rightarrow>
                 if jr ''error'' = Some (JString ''ok'') then (None, t2 @ [Request (menuRequest h)])
                 else case jr ''message'' of
                   Some (JString msg) \<Rightarrow>
                     if Contains msg ''MSG_LOGIN_150''
                     then (Some (Err (''An active session exists. Logout first. '' @ msg)), t2)
                     else (Some (Err ''login failed with provided credentials''), t2)
                 | _ \<Rightarrow> (Some (Err ''login failed with provided credentials''), t2)))"
  using assms
  by (simp add: tryLogin_def doPostForm_def saltRequest_def hashRequest_def menuRequest_def
      activateSession_def doGet_def assert_string_def Let_def requests_append
      split: sum.splits option.splits jany.splits)

lemma tryLogin_late_cases:
  assumes "http_Do w (requests t) (saltRequest h) = Inr body"
    and "json_Unmarshal_saltResp w body = Inr sr"
    and "Salt sr \<noteq> []" and "SaltWebUI sr \<noteq> []"
  shows "(\<exists>err. tryLogin w h t = (Some err,
       t @ [Request (saltRequest h), Pbkdf2Hex (pass h) (Salt sr),
            Pbkdf2Hex (pbkdf2Hex w (pass h) (Salt sr)) (SaltWebUI sr),
            Request (hashRequest h (pbkdf2Hex w (pbkdf2Hex w (pass h) (Salt sr)) (SaltWebUI sr)))]))
     \<or> tryLogin w h t = (None,
       t @ [Request (saltRequest h), Pbkdf2Hex (pass h) (Salt sr),
            Pbkdf2Hex (pbkdf2Hex w (pass h) (Salt sr)) (SaltWebUI sr),
            Request (hashRequest h (pbkdf2Hex w (pbkdf2Hex w (pass h) (Salt sr)) (SaltWebUI sr))),
            Request (menuRequest h)])"
proof -
  let ?fh = "pbkdf2Hex w (pbkdf2Hex w (pass h) (Salt sr)) (SaltWebUI sr)"
  note eq = tryLogin_hashed [OF assms, unfolded Let_def]
  show ?thesis
  proof (cases "http_Do w (requests t @ [saltRequest h]) (hashRequest h ?fh)")
    case (Inl err)
    then show "?thesis" by (simp add: eq)
  next
    case (Inr resp2body)
    show ?thesis
    proof (cases "json_Unmarshal_map w resp2body")
      case (Inl err)
      then show ?thesis by (simp add: eq Inr)
    next
      case jr: (Inr jr)
      show ?thesis
      proof (cases "jr ''error'' = Some (JString ''ok'')")
        case True
        then show ?thesis by (simp add: eq Inr jr)
      next
        case False
        show ?thesis
        proof (cases "jr ''message''")
          case None
          then show ?thesis by (simp add: eq Inr jr False)
        next
          case (Some v)
          then show ?thesis by (cases v) (simp_all add: eq Inr jr False)
        qed
      qed
    qed
  qed
qed

text \<open>The three shapes a trace of tryLogin can have.\<close>

lemma tryLogin_trace_cases:
  obtains
    (early) err where "tryLogin w h t = (Some err, t @ [Request (saltRequest h)])"
  | (late) err salt saltWebUI where
      "tryLogin w h t = (Some err,
         t @ [Request (saltRequest h), Pbkdf2Hex (pass h) salt,
              Pbkdf2Hex (pbkdf2Hex w (pass h) salt) saltWebUI,
              Request (hashRequest h (pbkdf2Hex w (pbkdf2Hex w (pass h) salt) saltWebUI))])"
  | (success) salt saltWebUI where
      "tryLogin w h t = (None,
         t @ [Request (saltRequest h), Pbkdf2Hex (pass h) salt,
              Pbkdf2Hex (pbkdf2Hex w (pass h) salt) saltWebUI,
              Request (hashRequest h (pbkdf2Hex w (pbkdf2Hex w (pass h) salt) saltWebUI)),
              Request (menuRequest h)])"
proof (cases "http_Do w (requests t) (saltRequest h)")
  case (Inl err)
  then show ?thesis using early tryLogin_salt_request_failed by blast
next
  case (Inr body)
  show ?thesis
  proof (cases "json_Unmarshal_saltResp w body")
    case (Inl err)
    then show ?thesis using early tryLogin_salt_parse_failed [OF Inr] by blast
  next
    case sr: (Inr sr)
    show ?thesis
    proof (cases "Salt sr = []")
      case True
      then show ?thesis using early tryLogin_no_salt [OF Inr sr] by blast
    next
      case salt: False
      show ?thesis
      proof (cases "SaltWebUI sr = []")
        case True
        then show ?thesis using early tryLogin_no_saltwebui [OF Inr sr salt] by blast
      next
        case False
        define t2 where "t2 = t @ [Request (saltRequest h), Pbkdf2Hex (pass h) (Salt sr),
              Pbkdf2Hex (pbkdf2Hex w (pass h) (Salt sr)) (SaltWebUI sr),
              Request (hashRequest h (pbkdf2Hex w (pbkdf2Hex w (pass h) (Salt sr)) (SaltWebUI sr)))]"
        have "(\<exists>err. tryLogin w h t = (Some err, t2))
          \<or> tryLogin w h t = (None, t2 @ [Request (menuRequest h)])"
          using tryLogin_late_cases [OF Inr sr salt False] by (simp add: t2_def)
        then show ?thesis
          using late [of _ "Salt sr" "SaltWebUI sr"] success [of "Salt sr" "SaltWebUI sr"]
          unfolding t2_def by auto
      qed
    qed
  qed
qed

section \<open>fetchHostTbl and logout\<close>

lemma fetchHostTbl_loop_map:
  "fetchHostTbl_loop es out = out @ map (\<lambda>e. \<lparr>MAC = Physaddress e, IP = Ipaddress e,
     Hostname = host_Hostname e, Active = (host_Active e = ''true'')\<rparr>) es"
  by (induction es arbitrary: out) simp_all

lemma fetchHostTbl_trace: "snd (fetchHostTbl w h t) = t @ [Request (hostTblRequest h)]"
  by (simp add: fetchHostTbl_def doGet_def hostTblRequest_def Let_def split: sum.splits)

lemma logout_trace: "logout w h t = t @ [Request (logoutRequest h)]"
  by (simp add: logout_def doPostForm_def logoutRequest_def Let_def)

lemma ListConnected_after_login:
  assumes "fst (tryLogin w h t) = None"
  shows "ListConnected w h t =
    (fst (fetchHostTbl w h (snd (tryLogin w h t))),
     snd (tryLogin w h t) @ [Request (hostTblRequest h), Request (logoutRequest h)])"
proof -
  obtain t1 where t1: "tryLogin w h t = (None, t1)"
    using assms by (cases "tryLogin w h t") simp
  obtain r t2 where f: "fetchHostTbl w h t1 = (r, t2)"
    by (cases "fetchHostTbl w h t1")
  have "t2 = t1 @ [Request (hostTblRequest h)]"
    using fetchHostTbl_trace [of w h t1] f by simp
  then show ?thesis
    by (simp add: ListConnected_def t1 f logout_trace)
qed

lemma ListConnected_login_error:
  assumes "fst (tryLogin w h t) = Some err"
  shows "ListConnected w h t = (([], Some err), snd (tryLogin w h t))"
proof -
  obtain t1 where t1: "tryLogin w h t = (Some err, t1)"
    using assms by (cases "tryLogin w h t") simp
  then show ?thesis by (simp add: ListConnected_def)
qed

section \<open>Worlds that differ in one answer\<close>

lemma pbkdf2Hex_world_cong:
  "pbkdf2_Key w' = pbkdf2_Key w \<Longrightarrow> pbkdf2Hex w' = pbkdf2Hex w"
  by (rule ext)+ (simp add: pbkdf2Hex_def)

lemma answering_fields:
  "json_Unmarshal_saltResp (answering w r a) = json_Unmarshal_saltResp w"
  "json_Unmarshal_map (answering w r a) = json_Unmarshal_map w"
  "json_Unmarshal_hostTblResp (answering w r a) = json_Unmarshal_hostTblResp w"
  "pbkdf2_Key (answering w r a) = pbkdf2_Key w"
  by (simp_all add: answering_def)

lemma answering_other:
  "URL req \<noteq> URL r \<Longrightarrow> http_Do (answering w r a) hist req = http_Do w hist req"
  by (auto simp: answering_def)

lemma doPostForm_answering:
  "u \<noteq> URL r \<Longrightarrow> doPostForm (answering w r a) h u form t = doPostForm w h u form t"
  by (simp add: doPostForm_def Let_def answering_other postFormRequest_def setCommonHeaders_def)

lemma doGet_answering:
  "u \<noteq> URL r \<Longrightarrow> doGet (answering w r a) h u t = doGet w h u t"
  by (simp add: doGet_def Let_def answering_other getRequest_def setCommonHeaders_def)

lemma activateSession_any_world: "activateSession w' h t = activateSession w h t"
  by (simp add: activateSession_def doGet_def Let_def)

lemma logout_any_world: "logout w' h t = logout w h t"
  by (simp add: logout_def doPostForm_def Let_def)

lemma tryLogin_answering_logout:
  "tryLogin (answering w (logoutRequest h) a) h t = tryLogin w h t"
proof -
  let ?w' = "answering w (logoutRequest h) a"
  have ne: "loginURL h \<noteq> URL (logoutRequest h)"
    using URLs_distinct [of h] by (simp add: request_URLs)
  have d: "doPostForm ?w' h (loginURL h) = doPostForm w h (loginURL h)"
    by (rule ext)+ (rule doPostForm_answering [OF ne])
  have p: "pbkdf2Hex ?w' = pbkdf2Hex w"
    by (rule pbkdf2Hex_world_cong) (rule answering_fields)
  have s: "activateSession ?w' h = activateSession w h"
    by (rule ext) (rule activateSession_any_world)
  show ?thesis
    unfolding tryLogin_def d p s answering_fields ..
qed

lemma fetchHostTbl_answering_logout:
  "fetchHostTbl (answering w (logoutRequest h) a) h t = fetchHostTbl w h t"
proof -
  have ne: "hostTblURL h \<noteq> URL (logoutRequest h)"
    using URLs_distinct [of h] by (simp add: request_URLs)
  show ?thesis
    unfolding fetchHostTbl_def doGet_answering [OF ne] answering_fields ..
qed

lemma ListConnected_answering_logout:
  "ListConnected (answering w (logoutRequest h) a) h t = ListConnected w h t"
  unfolding ListConnected_def tryLogin_answering_logout fetchHostTbl_answering_logout
    logout_any_world [of "answering w (logoutRequest h) a" h _ w] ..

lemma tryLogin_answering_menu:
  "tryLogin (answering w (menuRequest h) a) h t = tryLogin w h t"
proof -
  let ?w' = "answering w (menuRequest h) a"
  have ne: "loginURL h \<noteq> URL (menuRequest h)"
    using URLs_distinct [of h] by (simp add: request_URLs)
  have d: "doPostForm ?w' h (loginURL h) = doPostForm w h (loginURL h)"
    by (rule ext)+ (rule doPostForm_answering [OF ne])
  have p: "pbkdf2Hex ?w' = pbkdf2Hex w"
    by (rule pbkdf2Hex_world_cong) (rule answering_fields)
  have s: "activateSession ?w' h = activateSession w h"
    by (rule ext) (rule activateSession_any_world)
  show ?thesis
    unfolding tryLogin_def d p s answering_fields ..
qed

section \<open>ListConnected: login, fetch, logout\<close>

text \<open>
  Claim C1. When \<open>tryLogin\<close> succeeds, \<open>ListConnected\<close> returns exactly what
  \<open>fetchHostTbl\<close> returned (devices and error, whether it succeeded or failed), and
  its trace is the trace after the fetch followed by the one logout request: of the
  requests of the run, login, login, menu, hostTbl, logout in that order, exactly one goes
  to the logout URL. Whatever answer \<open>a\<close> the logout request gets, an error included,
  the result and the trace of \<open>ListConnected\<close> are the same.
\<close>

theorem ListConnected_logs_out_after_fetch:
  assumes "fst (tryLogin w h t) = None"
  shows "ListConnected w h t =
      (fst (fetchHostTbl w h (snd (tryLogin w h t))),
       snd (fetchHostTbl w h (snd (tryLogin w h t))) @ [Request (logoutRequest h)])
    \<and> length (filter (is_request_to (logoutURL h))
         (events_since t (snd (ListConnected w h t)))) = 1
    \<and> map URL (requests (events_since t (snd (ListConnected w h t)))) =
        [loginURL h, loginURL h, menuURL h, hostTblURL h, logoutURL h]
    \<and> Method (logoutRequest h) = ''POST''
    \<and> ListConnected (answering w (logoutRequest h) a) h t = ListConnected w h t"
proof -
  obtain salt saltWebUI where
    login: "tryLogin w h t = (None,
         t @ [Request (saltRequest h), Pbkdf2Hex (pass h) salt,
              Pbkdf2Hex (pbkdf2Hex w (pass h) salt) saltWebUI,
              Request (hashRequest h (pbkdf2Hex w (pbkdf2Hex w (pass h) salt) saltWebUI)),
              Request (menuRequest h)])"
    by (rule tryLogin_trace_cases [where w = w and h = h and t = t]) (use assms in auto)
  note lc = ListConnected_after_login [OF assms]
  have 1: "ListConnected w h t =
      (fst (fetchHostTbl w h (snd (tryLogin w h t))),
       snd (fetchHostTbl w h (snd (tryLogin w h t))) @ [Request (logoutRequest h)])"
    by (simp add: lc fetchHostTbl_trace)
  have ev: "events_since t (snd (ListConnected w h t)) =
      [Request (saltRequest h), Pbkdf2Hex (pass h) salt,
       Pbkdf2Hex (pbkdf2Hex w (pass h) salt) saltWebUI,
       Request (hashRequest h (pbkdf2Hex w (pbkdf2Hex w (pass h) salt) saltWebUI)),
       Request (menuRequest h), Request (hostTblRequest h), Request (logoutRequest h)]"
    by (simp add: lc login events_since_def)
  have 2: "length (filter (is_request_to (logoutURL h))
         (events_since t (snd (ListConnected w h t)))) = 1"
    unfolding ev using URLs_distinct [of h] by (simp add: request_URLs)
  have 3: "map URL (requests (events_since t (snd (ListConnected w h t)))) =
        [loginURL h, loginURL h, menuURL h, hostTblURL h, logoutURL h]"
    unfolding ev by (simp add: request_URLs)
  show ?thesis using 1 2 3 by (simp add: request_Methods ListConnected_answering_logout)
qed

text \<open>
  Claim C2. When \<open>tryLogin\<close> fails, \<open>ListConnected\<close> returns that error with no
  devices, its trace is the trace of \<open>tryLogin\<close>, and no request of the run goes to the
  host-table URL or to the logout URL.
\<close>

theorem ListConnected_login_failure_stops:
  assumes "fst (tryLogin w h t) = Some err"
  shows "ListConnected w h t = (([], Some err), snd (tryLogin w h t))
    \<and> filter (is_request_to (hostTblURL h)) (events_since t (snd (ListConnected w h t))) = []
    \<and> filter (is_request_to (logoutURL h)) (events_since t (snd (ListConnected w h t))) = []"
proof -
  note lc = ListConnected_login_error [OF assms]
  have "filter (is_request_to (hostTblURL h)) (events_since t (snd (tryLogin w h t))) = []
    \<and> filter (is_request_to (logoutURL h)) (events_since t (snd (tryLogin w h t))) = []"
    by (rule tryLogin_trace_cases [where w = w and h = h and t = t])
      (use URLs_distinct [of h] in \<open>simp_all add: events_since_def request_URLs\<close>)
  then show ?thesis by (simp add: lc)
qed


text \<open>
  C1 at concrete runs in which the logout request is refused: one whose fetch fails with
  the router's status, one whose host table is empty.
\<close>

theorem ListConnected_logs_out_after_fetch_witness:
  "fst (ListConnected world_fetch_denied demo_client []) =
      ([], Some (Err ''host table returned error: denied''))
   \<and> map URL (requests (events_since [] (snd (ListConnected world_fetch_denied demo_client [])))) =
     [''http://192.168.0.1/api/v1/session/login'', ''http://192.168.0.1/api/v1/session/login'',
      ''http://192.168.0.1/api/v1/session/menu'', ''http://192.168.0.1/api/v1/host/hostTbl'',
      ''http://192.168.0.1/api/v1/session/logout'']
   \<and> fst (ListConnected world_no_devices demo_client []) = ([], None)
   \<and> length (filter (is_request_to (logoutURL demo_client))
        (events_since [] (snd (ListConnected world_no_devices demo_client [])))) = 1"
proof -
  have w: "fst (tryLogin world_fetch_denied demo_client []) = None" by code_simp
  have v: "fst (tryLogin world_no_devices demo_client []) = None" by code_simp
  have fw: "fst (fetchHostTbl world_fetch_denied demo_client
      (snd (tryLogin world_fetch_denied demo_client []))) =
      ([], Some (Err ''host table returned error: denied''))" by code_simp
  have fv: "fst (fetchHostTbl world_no_devices demo_client
      (snd (tryLogin world_no_devices demo_client []))) = ([], None)"
    by code_simp
  have urls: "[loginURL demo_client, loginURL demo_client, menuURL demo_client,
      hostTblURL demo_client, logoutURL demo_client] =
     [''http://192.168.0.1/api/v1/session/login'', ''http://192.168.0.1/api/v1/session/login'',
      ''http://192.168.0.1/api/v1/session/menu'', ''http://192.168.0.1/api/v1/host/hostTbl'',
      ''http://192.168.0.1/api/v1/session/logout'']"
    by (simp add: loginURL_def menuURL_def hostTblURL_def logoutURL_def demo_client_def)
  note W = ListConnected_logs_out_after_fetch [OF w]
  note V = ListConnected_logs_out_after_fetch [OF v]
  have 1: "fst (ListConnected world_fetch_denied demo_client []) =
      ([], Some (Err ''host table returned error: denied''))"
    by (simp only: W [THEN conjunct1] fst_conv fw)
  have 2: "map URL (requests (events_since []
      (snd (ListConnected world_fetch_denied demo_client [])))) =
     [''http://192.168.0.1/api/v1/session/login'', ''http://192.168.0.1/api/v1/session/login'',
      ''http://192.168.0.1/api/v1/session/menu'', ''http://192.168.0.1/api/v1/host/hostTbl'',
      ''http://192.168.0.1/api/v1/session/logout'']"
    using W [THEN conjunct2, THEN conjunct2, THEN conjunct1] urls by (rule trans)
  have 3: "fst (ListConnected world_no_devices demo_client []) = ([], None)"
    by (simp only: V [THEN conjunct1] fst_conv fv)
  note 4 = V [THEN conjunct2, THEN conjunct1]
  show ?thesis using 1 2 3 4 by (intro conjI)
qed

text \<open>C2 at a run whose credentials the router rejects.\<close>

theorem ListConnected_login_failure_stops_witness:
  "ListConnected world_rejected demo_client [] =
     (([], Some (Err ''login failed with provided credentials'')),
      snd (tryLogin world_rejected demo_client []))
   \<and> filter (is_request_to (hostTblURL demo_client))
        (events_since [] (snd (ListConnected world_rejected demo_client []))) = []
   \<and> filter (is_request_to (logoutURL demo_client))
        (events_since [] (snd (ListConnected world_rejected demo_client []))) = []"
proof -
  have w: "fst (tryLogin world_rejected demo_client []) =
      Some (Err ''login failed with provided credentials'')"
    by code_simp
  show ?thesis by (rule ListConnected_login_failure_stops [OF w])
qed

section \<open>The concrete router\<close>

lemma demo_salt_answer:
  "http_Do (demo_world (Inr sb) la ha) (requests []) (saltRequest demo_client) = Inr sb"
  by (simp add: demo_world_def request_URLs loginURL_def demo_client_def)

lemma demo_login_answer:
  "http_Do (demo_world sa (Inr lb) ha) (requests [] @ [saltRequest demo_client])
     (hashRequest demo_client finalHash) = Inr lb"
  by (simp add: demo_world_def request_URLs loginURL_def demo_client_def)

lemma demo_host_answer:
  "http_Do (demo_world sa la ha) (requests t) (hostTblRequest demo_client) = ha"
  by (simp add: demo_world_def request_URLs hostTblURL_def demo_client_def)

lemma demo_decoders:
  "json_Unmarshal_saltResp (demo_world sa la ha) = demo_Unmarshal_saltResp"
  "json_Unmarshal_map (demo_world sa la ha) = demo_Unmarshal_map"
  "json_Unmarshal_hostTblResp (demo_world sa la ha) = demo_Unmarshal_hostTblResp"
  "pbkdf2_Key (demo_world sa la ha) = demo_Key"
  by (simp_all add: demo_world_def)

lemma demo_saltResp:
  "demo_Unmarshal_saltResp salt_body =
     Inr \<lparr>salt_Error = ''ok'', Salt = ''abc'', SaltWebUI = ''xyz''\<rparr>"
  "demo_Unmarshal_saltResp salt_body_error_fail =
     Inr \<lparr>salt_Error = ''fail'', Salt = ''abc'', SaltWebUI = ''xyz''\<rparr>"
  "demo_Unmarshal_saltResp salt_body_empty_salt =
     Inr \<lparr>salt_Error = ''ok'', Salt = [], SaltWebUI = ''xyz''\<rparr>"
  "demo_Unmarshal_saltResp salt_body_no_saltwebui =
     Inr \<lparr>salt_Error = ''ok'', Salt = ''abc'', SaltWebUI = []\<rparr>"
  "demo_Unmarshal_saltResp garbled_body = Inl (Err ''invalid character'')"
  by (simp_all add: demo_Unmarshal_saltResp_def salt_body_def salt_body_error_fail_def
      salt_body_empty_salt_def salt_body_no_saltwebui_def garbled_body_def)

lemma demo_map:
  "demo_Unmarshal_map login_body_ok = Inr [''error'' \<mapsto> JString ''ok'']"
  "demo_Unmarshal_map login_body_blocked =
     Inr [''error'' \<mapsto> JString ''fail'', ''message'' \<mapsto> JString ''MSG_LOGIN_150 please logout'']"
  "demo_Unmarshal_map login_body_rejected =
     Inr [''error'' \<mapsto> JString ''fail'', ''message'' \<mapsto> JString ''bad credentials'']"
  "demo_Unmarshal_map null_body = Inr Map.empty"
  "demo_Unmarshal_map garbled_body = Inl (Err ''invalid character'')"
  by (simp_all add: demo_Unmarshal_map_def login_body_ok_def login_body_blocked_def
      login_body_rejected_def null_body_def garbled_body_def)

lemma demo_hostTblResp:
  "demo_Unmarshal_hostTblResp host_body_devices =
     Inr \<lparr>host_Error = ''ok'', host_Message = [],
        host_Data = \<lparr>HostTbl =
          [\<lparr>Physaddress = ''AA:BB:CC:DD:EE:FF'', Ipaddress = ''192.168.0.5'',
            host_Hostname = ''phone'', host_Active = ''true''\<rparr>,
           \<lparr>Physaddress = ''11:22:33:44:55:66'', Ipaddress = ''192.168.0.6'',
            host_Hostname = ''tv'', host_Active = ''maybe''\<rparr>]\<rparr>,
        host_Token = []\<rparr>"
  "demo_Unmarshal_hostTblResp host_body_empty =
     Inr \<lparr>host_Error = ''ok'', host_Message = [], host_Data = \<lparr>HostTbl = []\<rparr>,
        host_Token = []\<rparr>"
  by (simp_all add: demo_Unmarshal_hostTblResp_def host_body_devices_def host_body_empty_def)

section \<open>tryLogin\<close>

text \<open>
  Claim C3. Once the hashed-password response has been decoded into the map \<open>jr\<close>: if
  \<open>jr["error"]\<close> is the string \<open>ok\<close>, \<open>tryLogin\<close> returns \<open>nil\<close>; otherwise, if
  \<open>jr["message"]\<close> is a string containing \<open>MSG_LOGIN_150\<close>, it returns the error
  \<open>An active session exists. Logout first.\<close> followed by that message, so the text of the
  error contains the router's message; otherwise it returns the error
  \<open>login failed with provided credentials\<close>.
\<close>

theorem tryLogin_outcome_of_login_response:
  assumes "http_Do w (requests t) (saltRequest h) = Inr body"
    and "json_Unmarshal_saltResp w body = Inr sr"
    and "Salt sr \<noteq> []" and "SaltWebUI sr \<noteq> []"
    and "http_Do w (requests t @ [saltRequest h])
      (hashRequest h (pbkdf2Hex w (pbkdf2Hex w (pass h) (Salt sr)) (SaltWebUI sr))) = Inr resp2body"
    and "json_Unmarshal_map w resp2body = Inr jr"
  shows "fst (tryLogin w h t) =
      (if jr ''error'' = Some (JString ''ok'') then None
       else case jr ''message'' of
         Some (JString msg) \<Rightarrow>
           if Contains msg ''MSG_LOGIN_150''
           then Some (Err (''An active session exists. Logout first. '' @ msg))
           else Some (Err ''login failed with provided credentials'')
       | _ \<Rightarrow> Some (Err ''login failed with provided credentials''))
    \<and> Contains (error_text (Err (''An active session exists. Logout first. '' @ msg))) msg"
proof -
  note eq = tryLogin_hashed [OF assms(1-4), unfolded Let_def]
  have "fst (tryLogin w h t) =
      (if jr ''error'' = Some (JString ''ok'') then None
       else case jr ''message'' of
         Some (JString msg) \<Rightarrow>
           if Contains msg ''MSG_LOGIN_150''
           then Some (Err (''An active session exists. Logout first. '' @ msg))
           else Some (Err ''login failed with provided credentials'')
       | _ \<Rightarrow> Some (Err ''login failed with provided credentials''))"
  proof (cases "jr ''error'' = Some (JString ''ok'')")
    case True
    then show ?thesis by (simp add: eq assms(5,6))
  next
    case False
    show ?thesis
    proof (cases "jr ''message''")
      case None
      then show ?thesis by (simp add: eq assms(5,6) False)
    next
      case (Some v)
      then show ?thesis by (cases v) (simp_all add: eq assms(5,6) False)
    qed
  qed
  moreover have "Contains (error_text (Err (''An active session exists. Logout first. '' @ msg))) msg"
    unfolding Contains_def error_text.simps by (rule sublist_append_leftI)
  ultimately show ?thesis by (rule conjI)
qed

text \<open>C3 at three runs: a login the router accepts, one it blocks, one it rejects.\<close>

theorem tryLogin_outcome_of_login_response_witness:
  "fst (tryLogin world_no_devices demo_client []) = None
   \<and> fst (tryLogin world_blocked demo_client []) =
       Some (Err ''An active session exists. Logout first. MSG_LOGIN_150 please logout'')
   \<and> fst (tryLogin world_rejected demo_client []) =
       Some (Err ''login failed with provided credentials'')"
proof -
  let ?sr = "\<lparr>salt_Error = ''ok'', Salt = ''abc'', SaltWebUI = ''xyz''\<rparr>"
  have s: "Salt ?sr \<noteq> []" "SaltWebUI ?sr \<noteq> []" by simp_all
  have c: "Contains ''MSG_LOGIN_150 please logout'' ''MSG_LOGIN_150''"
    "\<not> Contains ''bad credentials'' ''MSG_LOGIN_150''" by code_simp+
  have d: "json_Unmarshal_saltResp (demo_world sa la ha) salt_body = Inr ?sr" for sa la ha
    by (simp add: demo_decoders demo_saltResp)
  have m: "json_Unmarshal_map (demo_world sa la ha) login_body_ok =
      Inr [''error'' \<mapsto> JString ''ok'']"
    "json_Unmarshal_map (demo_world sa la ha) login_body_blocked =
      Inr [''error'' \<mapsto> JString ''fail'', ''message'' \<mapsto> JString ''MSG_LOGIN_150 please logout'']"
    "json_Unmarshal_map (demo_world sa la ha) login_body_rejected =
      Inr [''error'' \<mapsto> JString ''fail'', ''message'' \<mapsto> JString ''bad credentials'']"
    for sa la ha
    by (simp_all add: demo_decoders demo_map)
  note T = tryLogin_outcome_of_login_response
    [OF demo_salt_answer d s demo_login_answer, THEN conjunct1]
  have 1: "fst (tryLogin world_no_devices demo_client []) = None"
    unfolding world_no_devices_def using T [OF m(1)] by simp
  have 2: "fst (tryLogin world_blocked demo_client []) =
       Some (Err ''An active session exists. Logout first. MSG_LOGIN_150 please logout'')"
    unfolding world_blocked_def using T [OF m(2)] c by simp
  have 3: "fst (tryLogin world_rejected demo_client []) =
       Some (Err ''login failed with provided credentials'')"
    unfolding world_rejected_def using T [OF m(3)] c by simp
  show ?thesis using 1 2 3 by (intro conjI)
qed


text \<open>
  Claim C4. A decoded salt response whose \<open>salt\<close> or \<open>saltwebui\<close> is the empty string
  (a field absent from the JSON leaves the empty string in \<open>saltResp\<close>) makes
  \<open>tryLogin\<close> return \<open>no salt returned from router\<close>, or
  \<open>no saltwebui returned from router\<close>, and the run consists of the salt request alone:
  the hasher is not called, and the only request to the login URL is the one carrying the
  password \<open>seeksalthash\<close>.
\<close>

theorem tryLogin_missing_challenge_data:
  assumes "http_Do w (requests t) (saltRequest h) = Inr body"
    and "json_Unmarshal_saltResp w body = Inr sr"
    and "Salt sr = [] \<or> SaltWebUI sr = []"
  shows "tryLogin w h t =
      (Some (Err (if Salt sr = [] then ''no salt returned from router''
                  else ''no saltwebui returned from router'')),
       t @ [Request (saltRequest h)])
    \<and> filter is_hash_call (events_since t (snd (tryLogin w h t))) = []
    \<and> filter (is_request_to (loginURL h)) (events_since t (snd (tryLogin w h t))) =
        [Request (saltRequest h)]
    \<and> Body (saltRequest h) = Some [(''username'', [user h]), (''password'', [''seeksalthash''])]"
proof -
  have 1: "tryLogin w h t =
      (Some (Err (if Salt sr = [] then ''no salt returned from router''
                  else ''no saltwebui returned from router'')),
       t @ [Request (saltRequest h)])"
  proof (cases "Salt sr = []")
    case True
    then show ?thesis using tryLogin_no_salt [OF assms(1,2)] by simp
  next
    case False
    with assms(3) have "SaltWebUI sr = []" by simp
    then show ?thesis using tryLogin_no_saltwebui [OF assms(1,2) False] False by simp
  qed
  have ev: "events_since t (snd (tryLogin w h t)) = [Request (saltRequest h)]"
    by (simp add: 1 events_since_def)
  show ?thesis
    unfolding ev using 1 by (simp add: request_URLs saltRequest_password)
qed

text \<open>C4 at a salt response with an empty \<open>salt\<close> and at one without \<open>saltwebui\<close>.\<close>

theorem tryLogin_missing_challenge_data_witness:
  "tryLogin world_empty_salt demo_client [] =
      (Some (Err ''no salt returned from router''), [Request (saltRequest demo_client)])
   \<and> filter is_hash_call (events_since [] (snd (tryLogin world_empty_salt demo_client []))) = []
   \<and> tryLogin world_no_saltwebui demo_client [] =
      (Some (Err ''no saltwebui returned from router''), [Request (saltRequest demo_client)])
   \<and> filter is_hash_call (events_since [] (snd (tryLogin world_no_saltwebui demo_client []))) = []"
proof -
  let ?sr = "\<lparr>salt_Error = ''ok'', Salt = [], SaltWebUI = ''xyz''\<rparr>"
  let ?sr' = "\<lparr>salt_Error = ''ok'', Salt = ''abc'', SaltWebUI = []\<rparr>"
  have d: "json_Unmarshal_saltResp (demo_world sa la ha) salt_body_empty_salt = Inr ?sr"
    "json_Unmarshal_saltResp (demo_world sa la ha) salt_body_no_saltwebui = Inr ?sr'"
    for sa la ha
    by (simp_all add: demo_decoders demo_saltResp)
  have s: "Salt ?sr = [] \<or> SaltWebUI ?sr = []" "Salt ?sr' = [] \<or> SaltWebUI ?sr' = []"
    by simp_all
  note A = tryLogin_missing_challenge_data [OF demo_salt_answer d(1) s(1)]
  note B = tryLogin_missing_challenge_data [OF demo_salt_answer d(2) s(2)]
  have 1: "tryLogin world_empty_salt demo_client [] =
      (Some (Err ''no salt returned from router''), [Request (saltRequest demo_client)])"
    unfolding world_empty_salt_def using A [THEN conjunct1] by simp
  have 2: "filter is_hash_call
      (events_since [] (snd (tryLogin world_empty_salt demo_client []))) = []"
    unfolding world_empty_salt_def by (rule A [THEN conjunct2, THEN conjunct1])
  have 3: "tryLogin world_no_saltwebui demo_client [] =
      (Some (Err ''no saltwebui returned from router''), [Request (saltRequest demo_client)])"
    unfolding world_no_saltwebui_def using B [THEN conjunct1] by simp
  have 4: "filter is_hash_call
      (events_since [] (snd (tryLogin world_no_saltwebui demo_client []))) = []"
    unfolding world_no_saltwebui_def by (rule B [THEN conjunct2, THEN conjunct1])
  show ?thesis using 1 2 3 4 by (intro conjI)
qed

text \<open>
  Claim C5. When the decoded hashed-password response has \<open>error\<close> equal to \<open>ok\<close>,
  \<open>tryLogin\<close> returns \<open>nil\<close> and the run ends with the request of
  \<open>activateSession\<close>, a GET to the session-menu URL, the only request of the run to that
  URL. Whatever answer \<open>a\<close> that request gets, an error included, the outcome is
  \<open>nil\<close>.
\<close>

theorem tryLogin_activates_session_once:
  assumes "http_Do w (requests t) (saltRequest h) = Inr body"
    and "json_Unmarshal_saltResp w body = Inr sr"
    and "Salt sr \<noteq> []" and "SaltWebUI sr \<noteq> []"
    and "http_Do w (requests t @ [saltRequest h])
      (hashRequest h (pbkdf2Hex w (pbkdf2Hex w (pass h) (Salt sr)) (SaltWebUI sr))) = Inr resp2body"
    and "json_Unmarshal_map w resp2body = Inr jr"
    and "jr ''error'' = Some (JString ''ok'')"
  shows "tryLogin w h t =
      (None,
       t @ [Request (saltRequest h), Pbkdf2Hex (pass h) (Salt sr),
            Pbkdf2Hex (pbkdf2Hex w (pass h) (Salt sr)) (SaltWebUI sr),
            Request (hashRequest h (pbkdf2Hex w (pbkdf2Hex w (pass h) (Salt sr)) (SaltWebUI sr))),
            Request (menuRequest h)])
    \<and> filter (is_request_to (menuURL h)) (events_since t (snd (tryLogin w h t))) =
        [Request (menuRequest h)]
    \<and> Method (menuRequest h) = ''GET'' \<and> URL (menuRequest h) = menuURL h
    \<and> fst (tryLogin (answering w (menuRequest h) a) h t) = None"
proof -
  have 1: "tryLogin w h t =
      (None,
       t @ [Request (saltRequest h), Pbkdf2Hex (pass h) (Salt sr),
            Pbkdf2Hex (pbkdf2Hex w (pass h) (Salt sr)) (SaltWebUI sr),
            Request (hashRequest h (pbkdf2Hex w (pbkdf2Hex w (pass h) (Salt sr)) (SaltWebUI sr))),
            Request (menuRequest h)])"
    by (simp add: tryLogin_hashed [OF assms(1-4), unfolded Let_def] assms(5-7))
  have 2: "filter (is_request_to (menuURL h)) (events_since t (snd (tryLogin w h t))) =
        [Request (menuRequest h)]"
    using URLs_distinct [of h] by (simp add: 1 events_since_def request_URLs)
  show ?thesis using 1 2 by (simp add: request_URLs request_Methods tryLogin_answering_menu)
qed

text \<open>C5 at a run in which the session-menu request is refused.\<close>

theorem tryLogin_activates_session_once_witness:
  "fst (tryLogin world_devices demo_client []) = None
   \<and> filter (is_request_to (menuURL demo_client))
        (events_since [] (snd (tryLogin world_devices demo_client []))) =
      [Request (menuRequest demo_client)]
   \<and> http_Do world_devices
        (requests (butlast (snd (tryLogin world_devices demo_client []))))
        (menuRequest demo_client) = Inl (Err ''connection refused'')"
proof -
  let ?sr = "\<lparr>salt_Error = ''ok'', Salt = ''abc'', SaltWebUI = ''xyz''\<rparr>"
  have s: "Salt ?sr \<noteq> []" "SaltWebUI ?sr \<noteq> []" by simp_all
  have d: "json_Unmarshal_saltResp (demo_world sa la ha) salt_body = Inr ?sr" for sa la ha
    by (simp add: demo_decoders demo_saltResp)
  have m: "json_Unmarshal_map (demo_world sa la ha) login_body_ok =
      Inr [''error'' \<mapsto> JString ''ok'']" for sa la ha
    by (simp add: demo_decoders demo_map)
  have e: "[''error'' \<mapsto> JString ''ok''] ''error'' = Some (JString ''ok'')" by simp
  note T = tryLogin_activates_session_once [OF demo_salt_answer d s demo_login_answer m e]
  have 1: "fst (tryLogin world_devices demo_client []) = None"
    unfolding world_devices_def by (simp add: T [THEN conjunct1])
  have 2: "filter (is_request_to (menuURL demo_client))
        (events_since [] (snd (tryLogin world_devices demo_client []))) =
      [Request (menuRequest demo_client)]"
    unfolding world_devices_def by (rule T [THEN conjunct2, THEN conjunct1])
  have 3: "http_Do world_devices
        (requests (butlast (snd (tryLogin world_devices demo_client []))))
        (menuRequest demo_client) = Inl (Err ''connection refused'')"
    unfolding world_devices_def
    by (simp add: demo_world_def request_URLs menuURL_def demo_client_def refused_def)
  show ?thesis using 1 2 3 by (intro conjI)
qed

text \<open>
  Claim C9. The two parse failures of \<open>tryLogin\<close> are reported differently. When
  \<open>json.Unmarshal\<close> rejects the salt response, its error is returned wrapped in
  \<open>failed parsing salt response\<close>. When it rejects the hashed-password response (a body
  that is not JSON, or JSON that is not an object), or decodes it to the \<open>nil\<close> map (the
  body \<open>null\<close>), the parse error is dropped and \<open>tryLogin\<close> returns
  \<open>login failed with provided credentials\<close>.
\<close>

theorem tryLogin_parse_failures:
  assumes "http_Do w (requests t) (saltRequest h) = Inr body"
  shows "(\<forall>err. json_Unmarshal_saltResp w body = Inl err \<longrightarrow>
        fst (tryLogin w h t) = Some (Wrap ''failed parsing salt response: '' err))
    \<and> (\<forall>sr resp2body.
        json_Unmarshal_saltResp w body = Inr sr \<and> Salt sr \<noteq> [] \<and> SaltWebUI sr \<noteq> [] \<and>
        http_Do w (requests t @ [saltRequest h])
          (hashRequest h (pbkdf2Hex w (pbkdf2Hex w (pass h) (Salt sr)) (SaltWebUI sr))) =
          Inr resp2body \<and>
        ((\<exists>err. json_Unmarshal_map w resp2body = Inl err) \<or>
         json_Unmarshal_map w resp2body = Inr Map.empty) \<longrightarrow>
        fst (tryLogin w h t) = Some (Err ''login failed with provided credentials''))"
proof (intro conjI allI impI)
  fix err
  assume "json_Unmarshal_saltResp w body = Inl err"
  then show "fst (tryLogin w h t) = Some (Wrap ''failed parsing salt response: '' err)"
    by (simp add: tryLogin_salt_parse_failed [OF assms])
next
  fix sr resp2body
  assume a: "json_Unmarshal_saltResp w body = Inr sr \<and> Salt sr \<noteq> [] \<and> SaltWebUI sr \<noteq> [] \<and>
        http_Do w (requests t @ [saltRequest h])
          (hashRequest h (pbkdf2Hex w (pbkdf2Hex w (pass h) (Salt sr)) (SaltWebUI sr))) =
          Inr resp2body \<and>
        ((\<exists>err. json_Unmarshal_map w resp2body = Inl err) \<or>
         json_Unmarshal_map w resp2body = Inr Map.empty)"
  then have sr: "json_Unmarshal_saltResp w body = Inr sr" and s1: "Salt sr \<noteq> []"
    and s2: "SaltWebUI sr \<noteq> []"
    and r: "http_Do w (requests t @ [saltRequest h])
          (hashRequest h (pbkdf2Hex w (pbkdf2Hex w (pass h) (Salt sr)) (SaltWebUI sr))) =
          Inr resp2body"
    and j: "(\<exists>err. json_Unmarshal_map w resp2body = Inl err) \<or>
         json_Unmarshal_map w resp2body = Inr Map.empty"
    by simp_all
  note eq = tryLogin_hashed [OF assms sr s1 s2, unfolded Let_def]
  from j show "fst (tryLogin w h t) = Some (Err ''login failed with provided credentials'')"
  proof
    assume "\<exists>err. json_Unmarshal_map w resp2body = Inl err"
    then obtain err where "json_Unmarshal_map w resp2body = Inl err" ..
    then show ?thesis by (simp add: eq r)
  next
    assume "json_Unmarshal_map w resp2body = Inr Map.empty"
    then show ?thesis by (simp add: eq r)
  qed
qed

text \<open>
  C9 at a garbled salt response, a garbled hashed-password response and the response
  \<open>null\<close>.
\<close>

theorem tryLogin_parse_failures_witness:
  "fst (tryLogin world_salt_garbled demo_client []) =
      Some (Wrap ''failed parsing salt response: '' (Err ''invalid character''))
   \<and> fst (tryLogin world_login_garbled demo_client []) =
      Some (Err ''login failed with provided credentials'')
   \<and> fst (tryLogin world_login_null demo_client []) =
      Some (Err ''login failed with provided credentials'')"
proof -
  let ?sr = "\<lparr>salt_Error = ''ok'', Salt = ''abc'', SaltWebUI = ''xyz''\<rparr>"
  have g: "json_Unmarshal_saltResp (demo_world sa la ha) garbled_body =
      Inl (Err ''invalid character'')" for sa la ha
    by (simp add: demo_decoders demo_saltResp)
  have 1: "fst (tryLogin world_salt_garbled demo_client []) =
      Some (Wrap ''failed parsing salt response: '' (Err ''invalid character''))"
    unfolding world_salt_garbled_def
    by (rule tryLogin_parse_failures [OF demo_salt_answer, THEN conjunct1, rule_format, OF g])
  have 2: "fst (tryLogin world_login_garbled demo_client []) =
      Some (Err ''login failed with provided credentials'')"
    unfolding world_login_garbled_def
    by (rule tryLogin_parse_failures [OF demo_salt_answer, THEN conjunct2, rule_format,
          of _ _ _ ?sr garbled_body])
      (simp add: demo_decoders demo_saltResp demo_map demo_login_answer [simplified])
  have 3: "fst (tryLogin world_login_null demo_client []) =
      Some (Err ''login failed with provided credentials'')"
    unfolding world_login_null_def
    by (rule tryLogin_parse_failures [OF demo_salt_answer, THEN conjunct2, rule_format,
          of _ _ _ ?sr null_body])
      (simp add: demo_decoders demo_saltResp demo_map demo_login_answer [simplified])
  show ?thesis using 1 2 3 by (intro conjI)
qed

text \<open>
  Claim C10. \<open>tryLogin\<close> never reads \<open>saltResponse.Error\<close>: overwriting that field of
  every decoded salt response with any string \<open>e\<close> changes neither the result nor the
  trace of \<open>tryLogin\<close>. With \<open>salt\<close> and \<open>saltwebui\<close> non-empty the run goes on with
  the two hasher calls and the hashed-password request, whatever the field holds.
\<close>

theorem tryLogin_ignores_salt_error_field:
  "tryLogin (w\<lparr>json_Unmarshal_saltResp :=
       \<lambda>b. map_sum id (\<lambda>sr. sr\<lparr>salt_Error := e\<rparr>) (json_Unmarshal_saltResp w b)\<rparr>) h t =
     tryLogin w h t
   \<and> (http_Do w (requests t) (saltRequest h) = Inr body \<and>
      json_Unmarshal_saltResp w body = Inr sr \<and> Salt sr \<noteq> [] \<and> SaltWebUI sr \<noteq> [] \<longrightarrow>
      take 4 (events_since t (snd (tryLogin w h t))) =
        [Request (saltRequest h), Pbkdf2Hex (pass h) (Salt sr),
         Pbkdf2Hex (pbkdf2Hex w (pass h) (Salt sr)) (SaltWebUI sr),
         Request (hashRequest h (pbkdf2Hex w (pbkdf2Hex w (pass h) (Salt sr)) (SaltWebUI sr)))])"
proof (intro conjI impI)
  let ?w' = "w\<lparr>json_Unmarshal_saltResp :=
       \<lambda>b. map_sum id (\<lambda>sr. sr\<lparr>salt_Error := e\<rparr>) (json_Unmarshal_saltResp w b)\<rparr>"
  have p: "pbkdf2Hex ?w' = pbkdf2Hex w" by (rule pbkdf2Hex_world_cong) simp
  have a: "activateSession ?w' = activateSession w"
    by (rule ext)+ (simp add: activateSession_def doGet_def)
  have d: "doPostForm ?w' = doPostForm w"
    by (rule ext)+ (simp add: doPostForm_def)
  show "tryLogin ?w' h t = tryLogin w h t"
  proof (cases "doPostForm w h (loginURL h) (saltForm h) t")
    case (Pair r t1)
    show ?thesis
    proof (cases r)
      case (Inl err)
      then show ?thesis by (simp add: tryLogin_def d Pair)
    next
      case (Inr b)
      show ?thesis
      proof (cases "json_Unmarshal_saltResp w b")
        case (Inl err)
        then show ?thesis by (simp add: tryLogin_def d Pair Inr)
      next
        case sr: (Inr sr)
        have m: "json_Unmarshal_map ?w' = json_Unmarshal_map w" by simp
        show ?thesis
          unfolding tryLogin_def d p a m Pair Inr
          by (simp add: sr)
      qed
    qed
  qed
next
  assume "http_Do w (requests t) (saltRequest h) = Inr body \<and>
      json_Unmarshal_saltResp w body = Inr sr \<and> Salt sr \<noteq> [] \<and> SaltWebUI sr \<noteq> []"
  then have h: "http_Do w (requests t) (saltRequest h) = Inr body"
    "json_Unmarshal_saltResp w body = Inr sr" "Salt sr \<noteq> []" "SaltWebUI sr \<noteq> []"
    by simp_all
  from tryLogin_late_cases [OF h]
  show "take 4 (events_since t (snd (tryLogin w h t))) =
        [Request (saltRequest h), Pbkdf2Hex (pass h) (Salt sr),
         Pbkdf2Hex (pbkdf2Hex w (pass h) (Salt sr)) (SaltWebUI sr),
         Request (hashRequest h (pbkdf2Hex w (pbkdf2Hex w (pass h) (Salt sr)) (SaltWebUI sr)))]"
    by (auto simp: events_since_def)
qed

text \<open>C10 at a salt response whose \<open>error\<close> is \<open>fail\<close>.\<close>

theorem tryLogin_ignores_salt_error_field_witness:
  "take 4 (events_since [] (snd (tryLogin world_salt_error_fail demo_client []))) =
     [Request (saltRequest demo_client), Pbkdf2Hex ''secret'' ''abc'',
      Pbkdf2Hex ''09090909090909090909090909090909'' ''xyz'',
      Request (hashRequest demo_client ''23232323232323232323232323232323'')]"
proof -
  let ?sr = "\<lparr>salt_Error = ''fail'', Salt = ''abc'', SaltWebUI = ''xyz''\<rparr>"
  have d: "json_Unmarshal_saltResp (demo_world sa la ha) salt_body_error_fail = Inr ?sr"
    for sa la ha
    by (simp add: demo_decoders demo_saltResp)
  have h: "http_Do world_salt_error_fail (requests []) (saltRequest demo_client) =
      Inr salt_body_error_fail \<and>
      json_Unmarshal_saltResp world_salt_error_fail salt_body_error_fail = Inr ?sr \<and>
      Salt ?sr \<noteq> [] \<and> SaltWebUI ?sr \<noteq> []"
    unfolding world_salt_error_fail_def using demo_salt_answer d by simp
  have p: "pass demo_client = ''secret''"
    "pbkdf2Hex world_salt_error_fail ''secret'' ''abc'' = ''09090909090909090909090909090909''"
    "pbkdf2Hex world_salt_error_fail ''09090909090909090909090909090909'' ''xyz'' =
       ''23232323232323232323232323232323''"
    by code_simp+
  from tryLogin_ignores_salt_error_field [THEN conjunct2, rule_format, OF h]
  show ?thesis by (simp add: p)
qed

section \<open>The credential hasher\<close>

lemma hextable_nth: "i < 16 \<Longrightarrow> hextable ! i \<in> set hextable"
  by (rule nth_mem) (simp add: hextable_def)

lemma byte_high_nibble: "unat (drop_bit 4 (v :: 8 word)) < 16"
proof -
  have "unat v < 256" using unsigned_less [of v] by simp
  then have "unat v div 16 < 16" by simp
  then show ?thesis by (simp add: drop_bit_eq_div unat_div)
qed

lemma byte_low_nibble: "unat ((v :: 8 word) AND 0x0f) < 16"
proof -
  have "v AND 0x0f \<le> 0x0f" by (rule word_and_le1)
  then have "unat (v AND 0x0f) \<le> unat (0x0f :: 8 word)" by (simp add: word_le_nat_alt)
  then show ?thesis by simp
qed

lemma hex_EncodeToString_length: "length (hex_EncodeToString src) = 2 * length src"
  by (induction src) simp_all

lemma hex_EncodeToString_chars: "set (hex_EncodeToString src) \<subseteq> set hextable"
  by (induction src) (simp_all add: hextable_nth byte_high_nibble byte_low_nibble)

text \<open>
  Claim C6. \<open>pbkdf2Hex secret salt\<close> is \<open>hex.EncodeToString\<close> of
  \<open>pbkdf2.Key(secret, salt, 1000, 16, sha256.New)\<close>: a function of its two arguments
  (and of the library), hence deterministic. Given that the library returns a key of the
  16 bytes asked for, the result has exactly 32 characters, all among \<open>0123456789abcdef\<close>.
  In \<open>tryLogin\<close>, once the salt response holds both salts, the hasher is called exactly
  twice, first on the password and \<open>salt\<close>, then on the first result and \<open>saltwebui\<close>,
  and the second result is the password of the request posted next.
\<close>

theorem pbkdf2Hex_hex_of_pbkdf2_key:
  assumes "length (pbkdf2_Key w secret salt 1000 16 SHA256) = 16"
  shows "pbkdf2Hex w secret salt = hex_EncodeToString (pbkdf2_Key w secret salt 1000 16 SHA256)
    \<and> length (pbkdf2Hex w secret salt) = 32
    \<and> set (pbkdf2Hex w secret salt) \<subseteq> set ''0123456789abcdef''
    \<and> (http_Do w (requests t) (saltRequest h) = Inr body \<and>
       json_Unmarshal_saltResp w body = Inr sr \<and> Salt sr \<noteq> [] \<and> SaltWebUI sr \<noteq> [] \<longrightarrow>
       filter is_hash_call (events_since t (snd (tryLogin w h t))) =
         [Pbkdf2Hex (pass h) (Salt sr),
          Pbkdf2Hex (pbkdf2Hex w (pass h) (Salt sr)) (SaltWebUI sr)]
       \<and> events_since t (snd (tryLogin w h t)) ! 3 =
           Request (hashRequest h (pbkdf2Hex w (pbkdf2Hex w (pass h) (Salt sr)) (SaltWebUI sr)))
       \<and> Body (hashRequest h (pbkdf2Hex w (pbkdf2Hex w (pass h) (Salt sr)) (SaltWebUI sr))) =
           Some [(''username'', [user h]),
                 (''password'', [pbkdf2Hex w (pbkdf2Hex w (pass h) (Salt sr)) (SaltWebUI sr)])])"
proof (intro conjI impI)
  show "pbkdf2Hex w secret salt = hex_EncodeToString (pbkdf2_Key w secret salt 1000 16 SHA256)"
    by (simp add: pbkdf2Hex_def)
  show "length (pbkdf2Hex w secret salt) = 32"
    by (simp add: pbkdf2Hex_def hex_EncodeToString_length assms)
  show "set (pbkdf2Hex w secret salt) \<subseteq> set ''0123456789abcdef''"
    using hex_EncodeToString_chars [of "pbkdf2_Key w secret salt 1000 16 SHA256"]
    by (simp add: pbkdf2Hex_def hextable_def)
next
  assume "http_Do w (requests t) (saltRequest h) = Inr body \<and>
       json_Unmarshal_saltResp w body = Inr sr \<and> Salt sr \<noteq> [] \<and> SaltWebUI sr \<noteq> []"
  then have h: "http_Do w (requests t) (saltRequest h) = Inr body"
    "json_Unmarshal_saltResp w body = Inr sr" "Salt sr \<noteq> []" "SaltWebUI sr \<noteq> []"
    by simp_all
  from tryLogin_late_cases [OF h]
  show "filter is_hash_call (events_since t (snd (tryLogin w h t))) =
         [Pbkdf2Hex (pass h) (Salt sr),
          Pbkdf2Hex (pbkdf2Hex w (pass h) (Salt sr)) (SaltWebUI sr)]"
    by (auto simp: events_since_def)
  from tryLogin_late_cases [OF h]
  show "events_since t (snd (tryLogin w h t)) ! 3 =
           Request (hashRequest h (pbkdf2Hex w (pbkdf2Hex w (pass h) (Salt sr)) (SaltWebUI sr)))"
    by (auto simp: events_since_def)
  show "Body (hashRequest h (pbkdf2Hex w (pbkdf2Hex w (pass h) (Salt sr)) (SaltWebUI sr))) =
           Some [(''username'', [user h]),
                 (''password'', [pbkdf2Hex w (pbkdf2Hex w (pass h) (Salt sr)) (SaltWebUI sr)])]"
    by (rule hashRequest_password)
qed

text \<open>C6 at the stand-in key derivation, and at a login of the concrete client.\<close>

theorem pbkdf2Hex_hex_of_pbkdf2_key_witness:
  "pbkdf2Hex world_devices ''secret'' ''abc'' = ''09090909090909090909090909090909''
   \<and> length (pbkdf2Hex world_devices ''secret'' ''abc'') = 32
   \<and> filter is_hash_call (events_since [] (snd (tryLogin world_devices demo_client []))) =
       [Pbkdf2Hex ''secret'' ''abc'', Pbkdf2Hex ''09090909090909090909090909090909'' ''xyz'']"
proof -
  let ?sr = "\<lparr>salt_Error = ''ok'', Salt = ''abc'', SaltWebUI = ''xyz''\<rparr>"
  have k: "length (pbkdf2_Key world_devices ''secret'' ''abc'' 1000 16 SHA256) = 16"
    by code_simp
  have e: "hex_EncodeToString (pbkdf2_Key world_devices ''secret'' ''abc'' 1000 16 SHA256) =
      ''09090909090909090909090909090909''" by code_simp
  have d: "json_Unmarshal_saltResp (demo_world sa la ha) salt_body = Inr ?sr" for sa la ha
    by (simp add: demo_decoders demo_saltResp)
  have h: "http_Do world_devices (requests []) (saltRequest demo_client) = Inr salt_body \<and>
      json_Unmarshal_saltResp world_devices salt_body = Inr ?sr \<and>
      Salt ?sr \<noteq> [] \<and> SaltWebUI ?sr \<noteq> []"
    unfolding world_devices_def using demo_salt_answer d by simp
  have p: "pass demo_client = ''secret''" by (simp add: demo_client_def)
  note T = pbkdf2Hex_hex_of_pbkdf2_key [OF k]
  have 1: "pbkdf2Hex world_devices ''secret'' ''abc'' = ''09090909090909090909090909090909''"
    using T [THEN conjunct1] e by (rule trans)
  note 2 = T [THEN conjunct2, THEN conjunct1]
  have 3: "filter is_hash_call (events_since [] (snd (tryLogin world_devices demo_client []))) =
       [Pbkdf2Hex ''secret'' ''abc'', Pbkdf2Hex ''09090909090909090909090909090909'' ''xyz'']"
    using T [THEN conjunct2, THEN conjunct2, THEN conjunct2, rule_format, OF h, THEN conjunct1]
    by (simp add: p 1)
  show ?thesis using 1 2 3 by (intro conjI)
qed

section \<open>The device catalogue\<close>

text \<open>
  Claim C7. When the host-table envelope decodes and its \<open>error\<close> is \<open>ok\<close>,
  \<open>fetchHostTbl\<close> returns no error and one \<open>Device\<close> per host record, in the order of
  the records, with \<open>physaddress\<close>, \<open>ipaddress\<close> and \<open>hostname\<close> copied and
  \<open>Active\<close> true exactly when \<open>active\<close> is the string \<open>true\<close>; an empty host list
  gives the empty device list and no error.
\<close>

theorem fetchHostTbl_maps_host_records:
  assumes "http_Do w (requests t) (hostTblRequest h) = Inr body"
    and "json_Unmarshal_hostTblResp w body = Inr r"
    and "host_Error r = ''ok''"
  shows "fst (fetchHostTbl w h t) =
      (map (\<lambda>e. \<lparr>MAC = Physaddress e, IP = Ipaddress e, Hostname = host_Hostname e,
                 Active = (host_Active e = ''true'')\<rparr>) (HostTbl (host_Data r)), None)
    \<and> (HostTbl (host_Data r) = [] \<longrightarrow> fst (fetchHostTbl w h t) = ([], None))"
proof -
  have "fst (fetchHostTbl w h t) =
      (map (\<lambda>e. \<lparr>MAC = Physaddress e, IP = Ipaddress e, Hostname = host_Hostname e,
                 Active = (host_Active e = ''true'')\<rparr>) (HostTbl (host_Data r)), None)"
    using assms
    by (simp add: fetchHostTbl_def doGet_def hostTblRequest_def Let_def fetchHostTbl_loop_map)
  then show ?thesis by simp
qed

text \<open>
  C7 at a host table of two records, one with \<open>active\<close> equal to \<open>maybe\<close>, and at an
  empty host table.
\<close>

theorem fetchHostTbl_maps_host_records_witness:
  "fst (fetchHostTbl world_devices demo_client []) =
     ([\<lparr>MAC = ''AA:BB:CC:DD:EE:FF'', IP = ''192.168.0.5'', Hostname = ''phone'', Active = True\<rparr>,
       \<lparr>MAC = ''11:22:33:44:55:66'', IP = ''192.168.0.6'', Hostname = ''tv'', Active = False\<rparr>],
      None)
   \<and> fst (fetchHostTbl world_no_devices demo_client []) = ([], None)"
proof -
  have d: "json_Unmarshal_hostTblResp (demo_world sa la ha) host_body_devices =
      Inr \<lparr>host_Error = ''ok'', host_Message = [],
        host_Data = \<lparr>HostTbl =
          [\<lparr>Physaddress = ''AA:BB:CC:DD:EE:FF'', Ipaddress = ''192.168.0.5'',
            host_Hostname = ''phone'', host_Active = ''true''\<rparr>,
           \<lparr>Physaddress = ''11:22:33:44:55:66'', Ipaddress = ''192.168.0.6'',
            host_Hostname = ''tv'', host_Active = ''maybe''\<rparr>]\<rparr>,
        host_Token = []\<rparr>"
    "json_Unmarshal_hostTblResp (demo_world sa la ha) host_body_empty =
      Inr \<lparr>host_Error = ''ok'', host_Message = [], host_Data = \<lparr>HostTbl = []\<rparr>,
        host_Token = []\<rparr>"
    for sa la ha
    by (simp_all add: demo_decoders demo_hostTblResp)
  have 1: "fst (fetchHostTbl world_devices demo_client []) =
     ([\<lparr>MAC = ''AA:BB:CC:DD:EE:FF'', IP = ''192.168.0.5'', Hostname = ''phone'', Active = True\<rparr>,
       \<lparr>MAC = ''11:22:33:44:55:66'', IP = ''192.168.0.6'', Hostname = ''tv'', Active = False\<rparr>],
      None)"
    unfolding world_devices_def
    using fetchHostTbl_maps_host_records [OF demo_host_answer d(1), THEN conjunct1]
    by simp
  have 2: "fst (fetchHostTbl world_no_devices demo_client []) = ([], None)"
    unfolding world_no_devices_def
    using fetchHostTbl_maps_host_records [OF demo_host_answer d(2), THEN conjunct2]
    by simp
  show ?thesis using 1 2 by (intro conjI)
qed

end
